theory Spec2Isabelle
  imports Main
begin

section \<open>Declarations tree of package smgo\<close>

text \<open>
  Modelled from the spec: the type declarations of package smgo (\<open>File\<close>, \<open>Node\<close>,
  \<open>Container\<close>, \<open>Location\<close>, \<open>LocationSpan\<close>, \<open>RuneSpan\<close>, \<open>ParsingError\<close>,
  \<open>block\<close> and the constants of \<open>NodeType\<close>, \<open>ContainerType\<close>, \<open>blockType\<close>) are not in
  parser.go. Their fields and constants are taken as parser.go and its test use them.
  A Go slice is a list, the nil slice is \<open>[]\<close>; a pointer that may be nil is an option.
\<close>

record RuneSpan =
  Start :: int
  End :: int

record Location =
  Line :: int
  Column :: int

record LocationSpan =
  Start :: Location
  End :: Location

datatype NodeType = PackageNode | FunctionNode | ConstNode | ImportNode | FieldNode

record Node =
  Type :: NodeType
  Name :: string
  LocationSpan :: LocationSpan
  Span :: RuneSpan

datatype ContainerType = StructContainer | InterfaceContainer

datatype Container = Container
  (Type: ContainerType)
  (Name: string)
  (LocationSpan: LocationSpan)
  (HeaderSpan: RuneSpan)
  (FooterSpan: RuneSpan)
  (Containers: "Container list")
  (Nodes: "Node list")

record ParsingError =
  Location :: Location
  Message :: string

record File =
  LocationSpan :: LocationSpan
  FooterSpan :: RuneSpan
  Containers :: "Container list"
  Nodes :: "Node list"
  ParsingErrors :: "ParsingError list"

datatype blockType = nodeBlock | containerBlock

text \<open>
  A block points to the Node it describes and to its parent Container. The model keeps
  the value the pointer refers to when the block is appended.
\<close>

record block =
  Type :: blockType
  Node :: "Node option"
  Container :: "Container option"

section \<open>What the Go libraries hand to the parser\<close>

subsection \<open>errors\<close>

text \<open>
  \<open>errors.New\<close> and \<open>errors.Wrap\<close> of github.com/pkg/errors: an error is a message, or
  a cause wrapped with a message.
\<close>

datatype error = New string | Wrap error string

definition ErrUnsupportedEncoding :: error where
  "ErrUnsupportedEncoding = New ''Unsupported encoding''"

subsection \<open>io.Reader and ioutil.ReadAll\<close>

text \<open>
  A reader is what its successive \<open>Read\<close> calls deliver: chunks of bytes, ended by
  \<open>io.EOF\<close> or by an error. \<open>ioutil.ReadAll\<close> reads until one of the two; \<open>io.EOF\<close> is
  not an error for it.
\<close>

datatype Reader = EOF | Chunk string Reader | Fail error

fun ReadAll :: "Reader \<Rightarrow> error + string" where
  "ReadAll EOF = Inr []"
| "ReadAll (Fail err) = Inl err"
| "ReadAll (Chunk b r) = (case ReadAll r of Inl err \<Rightarrow> Inl err | Inr bs \<Rightarrow> Inr (b @ bs))"

subsection \<open>strings.ToUpper\<close>

text \<open>
  On ASCII bytes \<open>strings.ToUpper\<close> maps \<open>a\<close>..\<open>z\<close> to \<open>A\<close>..\<open>Z\<close> and keeps the rest. The
  model keeps every byte above 127 as it is; Go maps the runes they encode to their upper
  case, which is never one of the ASCII characters of \<open>UTF-8\<close> (the only runes outside
  ASCII with an ASCII upper case are U+0131 and U+017F, for \<open>I\<close> and \<open>S\<close>), so the comparison
  the parser makes on the result is the same.
\<close>

definition toUpperByte :: "char \<Rightarrow> char" where
  "toUpperByte c =
     (let n = (of_char c :: nat) in if 97 \<le> n \<and> n \<le> 122 then char_of (n - 32) else c)"

definition ToUpper :: "string \<Rightarrow> string" where
  "ToUpper s = map toUpperByte s"

subsection \<open>go/token\<close>

type_synonym token_Pos = int

record token_Position =
  Offset :: int
  Line :: int
  Column :: int

text \<open>A file set resolves a \<open>token.Pos\<close> to its offset, line and column.\<close>

type_synonym token_FileSet = "token_Pos \<Rightarrow> token_Position"

definition Position :: "token_FileSet \<Rightarrow> token_Pos \<Rightarrow> token_Position" where
  "Position fset p = fset p"

datatype token_Token = token_IMPORT | token_CONST | token_TYPE | token_VAR

subsection \<open>go/ast\<close>

record ast_Ident =
  NamePos :: token_Pos
  Name :: string

definition Ident_Pos :: "ast_Ident \<Rightarrow> token_Pos" where
  "Ident_Pos x = NamePos x"

definition Ident_End :: "ast_Ident \<Rightarrow> token_Pos" where
  "Ident_End x = NamePos x + int (length (ast_Ident.Name x))"

record ast_BlockStmt =
  Lbrace :: token_Pos
  Rbrace :: token_Pos

definition BlockStmt_End :: "ast_BlockStmt \<Rightarrow> token_Pos" where
  "BlockStmt_End s = Rbrace s + 1"

text \<open>
  A function declaration: its name, the position of the \<open>func\<close> keyword and the end of
  its signature (\<open>Type.Pos()\<close> and \<open>Type.End()\<close>), and its body, absent for an external
  function.
\<close>

record ast_FuncDecl =
  Name :: ast_Ident
  Func :: token_Pos
  Type_End :: token_Pos
  Body :: "ast_BlockStmt option"

definition FuncDecl_Pos :: "ast_FuncDecl \<Rightarrow> token_Pos" where
  "FuncDecl_Pos d = Func d"

definition FuncDecl_End :: "ast_FuncDecl \<Rightarrow> token_Pos" where
  "FuncDecl_End d = (case Body d of Some b \<Rightarrow> BlockStmt_End b | None \<Rightarrow> Type_End d)"

text \<open>
  The specs of a general declaration, by what they declare: an imported path, the names
  of a const or var spec, a type name with the field names of its struct type (\<open>None\<close>
  for any other type expression).
\<close>

datatype ast_Spec =
    ImportSpec string
  | ValueSpec "string list"
  | TypeSpec string "string list option"

text \<open>
  A general declaration (import, const, type, var): its keyword, its specs, and the
  positions \<open>Pos()\<close> and \<open>End()\<close> give for it.
\<close>

record ast_GenDecl =
  TokPos :: token_Pos
  Tok :: token_Token
  Specs :: "ast_Spec list"
  EndPos :: token_Pos

text \<open>
  The nodes below the file node. Each carries the list of its children in the order
  \<open>ast.Walk\<close> visits them. \<open>OtherNode\<close> is a node of any other kind (identifier, comment
  group, bad declaration, statement, expression, ...) with its \<open>Pos()\<close> and \<open>End()\<close>.
\<close>

datatype ast_Node =
    FuncDecl ast_FuncDecl "ast_Node list"
  | GenDecl ast_GenDecl "ast_Node list"
  | OtherNode token_Pos token_Pos "ast_Node list"

fun children :: "ast_Node \<Rightarrow> ast_Node list" where
  "children (FuncDecl d cs) = cs"
| "children (GenDecl d cs) = cs"
| "children (OtherNode p e cs) = cs"

fun Node_End :: "ast_Node \<Rightarrow> token_Pos" where
  "Node_End (FuncDecl d cs) = FuncDecl_End d"
| "Node_End (GenDecl d cs) = EndPos d"
| "Node_End (OtherNode p e cs) = e"

text \<open>
  The file node. \<open>Doc\<close> is the doc comment group when there is one, by its \<open>Pos()\<close>
  and \<open>End()\<close>.
\<close>

record ast_File =
  Doc :: "(token_Pos \<times> token_Pos) option"
  Package :: token_Pos
  Name :: ast_Ident
  Decls :: "ast_Node list"

definition File_Pos :: "ast_File \<Rightarrow> token_Pos" where
  "File_Pos f = Package f"

definition File_End :: "ast_File \<Rightarrow> token_Pos" where
  "File_End f = (if Decls f \<noteq> [] then Node_End (last (Decls f)) else Ident_End (ast_File.Name f))"

definition IdentNode :: "ast_Ident \<Rightarrow> ast_Node" where
  "IdentNode x = OtherNode (Ident_Pos x) (Ident_End x) []"

subsection \<open>go/parser and go/scanner\<close>

text \<open>
  The error \<open>parser.ParseFile\<close> returns: the line and column of the first syntax error,
  and the text \<open>err.Error()\<close> gives.
\<close>

record scanner_Error =
  ErrLine :: int
  ErrColumn :: int
  Error :: string

text \<open>
  \<open>parser.ParseFile\<close> on the source bytes: a syntax error, or the file set it filled
  and the tree.
\<close>

type_synonym native_parser = "string \<Rightarrow> scanner_Error + token_FileSet \<times> ast_File"

section \<open>parser.go\<close>

record fileVisitor =
  FileSet :: token_FileSet
  File :: "File option"
  Blocks :: "block list"

definition createFile :: "token_FileSet \<Rightarrow> ast_File \<Rightarrow> File" where
  "createFile fset n =
     \<lparr> File.LocationSpan =
         \<lparr> LocationSpan.Start =
             \<lparr> Location.Line = token_Position.Line (Position fset (File_Pos n)),
               Location.Column = token_Position.Column (Position fset (File_Pos n)) \<rparr>,
           LocationSpan.End =
             \<lparr> Location.Line = token_Position.Line (Position fset (File_End n)),
               Location.Column = token_Position.Column (Position fset (File_End n)) \<rparr> \<rparr>,
       File.FooterSpan = \<lparr> RuneSpan.Start = 0, RuneSpan.End = - 1 \<rparr>,
       File.Containers = [],
       File.Nodes =
         [ \<lparr> Node.Type = PackageNode,
             Node.Name = ast_Ident.Name (ast_File.Name n),
             Node.LocationSpan =
               \<lparr> LocationSpan.Start =
                   \<lparr> Location.Line = token_Position.Line (Position fset (Package n)),
                     Location.Column = token_Position.Column (Position fset (Package n)) \<rparr>,
                 LocationSpan.End =
                   \<lparr> Location.Line =
                       token_Position.Line (Position fset (Ident_Pos (ast_File.Name n))),
                     Location.Column =
                       token_Position.Column (Position fset (Ident_End (ast_File.Name n))) \<rparr> \<rparr>,
             Node.Span =
               \<lparr> RuneSpan.Start = Offset (Position fset (Package n)),
                 RuneSpan.End = Offset (Position fset (Ident_End (ast_File.Name n))) \<rparr> \<rparr> ],
       File.ParsingErrors = [] \<rparr>"

definition createFunc :: "token_FileSet \<Rightarrow> ast_FuncDecl \<Rightarrow> Node" where
  "createFunc fset n =
     \<lparr> Node.Type = FunctionNode,
       Node.Name = ast_Ident.Name (ast_FuncDecl.Name n),
       Node.LocationSpan =
         \<lparr> LocationSpan.Start =
             \<lparr> Location.Line = token_Position.Line (Position fset (FuncDecl_Pos n)),
               Location.Column = token_Position.Column (Position fset (FuncDecl_Pos n)) \<rparr>,
           LocationSpan.End =
             \<lparr> Location.Line = token_Position.Line (Position fset (FuncDecl_End n)),
               Location.Column = token_Position.Column (Position fset (FuncDecl_End n)) \<rparr> \<rparr>,
       Node.Span =
         \<lparr> RuneSpan.Start = Offset (Position fset (FuncDecl_Pos n)),
           RuneSpan.End = Offset (Position fset (FuncDecl_End n)) \<rparr> \<rparr>"

text \<open>
  What \<open>Visit\<close> is called with: the file node, a node below it, or nil (the call
  \<open>ast.Walk\<close> makes after the children of a node).
\<close>

datatype visited = V_File ast_File | V_Node ast_Node | V_nil

datatype panic = NilPointerDereference | IndexOutOfRange

text \<open>
  \<open>Visit\<close> updates the visitor in place and returns it, or nil. The model returns the
  updated visitor and whether the visitor returned is not nil. \<open>v.File.Nodes[0]\<close> and
  \<open>v.File.Nodes\<close> panic on an empty slice and on a nil \<open>v.File\<close>.
\<close>

definition Visit :: "fileVisitor \<Rightarrow> visited \<Rightarrow> panic + fileVisitor \<times> bool" where
  "Visit v node =
     (case node of
        V_File n \<Rightarrow>
          (let f = createFile (FileSet v) n in
           case File.Nodes f of
             [] \<Rightarrow> Inl IndexOutOfRange
           | n0 # _ \<Rightarrow>
               Inr (v\<lparr> File := Some f,
                        Blocks := Blocks v @
                          [\<lparr> block.Type = nodeBlock, Node = Some n0, Container = None \<rparr>] \<rparr>,
                    True))
      | V_Node (FuncDecl n cs) \<Rightarrow>
          (let funcNode = createFunc (FileSet v) n in
           case File v of
             None \<Rightarrow> Inl NilPointerDereference
           | Some f \<Rightarrow>
               Inr (v\<lparr> File := Some (f\<lparr> File.Nodes := File.Nodes f @ [funcNode] \<rparr>),
                        Blocks := Blocks v @
                          [\<lparr> block.Type = nodeBlock, Node = Some funcNode, Container = None \<rparr>] \<rparr>,
                    False))
      | _ \<Rightarrow> Inr (v, False))"

text \<open>
  \<open>ast.Walk\<close>: call \<open>Visit\<close> on the node; if the visitor it returns is not nil, walk
  the children of the node in order with it and then call \<open>Visit(nil)\<close>.
\<close>

function Walk :: "fileVisitor \<Rightarrow> ast_Node \<Rightarrow> panic + fileVisitor"
  and walkList :: "fileVisitor \<Rightarrow> ast_Node list \<Rightarrow> panic + fileVisitor" where
  "Walk v node =
     (case Visit v (V_Node node) of
        Inl p \<Rightarrow> Inl p
      | Inr (w, descend) \<Rightarrow>
          if \<not> descend then Inr w
          else (case walkList w (children node) of
                  Inl p \<Rightarrow> Inl p
                | Inr w' \<Rightarrow> map_sum id fst (Visit w' V_nil)))"
| "walkList v [] = Inr v"
| "walkList v (n # ns) = (case Walk v n of Inl p \<Rightarrow> Inl p | Inr w \<Rightarrow> walkList w ns)"
  by pat_completeness auto
termination
proof (relation "measure (\<lambda>x. case x of Inl (v, n) \<Rightarrow> 2 * size n
                                      | Inr (v, ns) \<Rightarrow> 2 * size_list size ns + 1)", goal_cases)
  case 1
  show ?case by simp
next
  case (2 v node a y)
  show ?case by (cases node) simp_all
next
  case (3 v n ns)
  show ?case by simp
next
  case (4 v n ns w)
  show ?case by simp
qed

text \<open>
  \<open>ast.Walk\<close> on the file node: its children are the doc comment when there is one, the
  package name and the declarations; the comments list is not walked.
\<close>

definition Walk_File :: "fileVisitor \<Rightarrow> ast_File \<Rightarrow> panic + fileVisitor" where
  "Walk_File v n =
     (case Visit v (V_File n) of
        Inl p \<Rightarrow> Inl p
      | Inr (w, descend) \<Rightarrow>
          if \<not> descend then Inr w
          else (case walkList w
                       ((case Doc n of None \<Rightarrow> [] | Some (p, e) \<Rightarrow> [OtherNode p e []]) @
                        [IdentNode (ast_File.Name n)] @ Decls n) of
                  Inl p \<Rightarrow> Inl p
                | Inr w' \<Rightarrow> map_sum id fst (Visit w' V_nil)))"

text \<open>
  \<open>fixBlockBoundaries\<close> is not in parser.go: it is a parameter of \<open>Parse\<close>, given the
  file, the blocks and the source bytes, and returning the file as it leaves it and its
  error (\<open>None\<close> for nil).
\<close>

type_synonym boundary_fixer = "File \<Rightarrow> block list \<Rightarrow> string \<Rightarrow> File \<times> error option"

text \<open>
  \<open>Parse\<close> returns the pair \<open>(*File, error)\<close>, or panics. The last case hands a nil file
  to \<open>fixBlockBoundaries\<close>.
\<close>

definition Parse ::
  "native_parser \<Rightarrow> boundary_fixer \<Rightarrow> Reader \<Rightarrow> string \<Rightarrow> panic + File option \<times> error option" where
  "Parse ParseFile fixBlockBoundaries src encoding =
     (case ReadAll src of
        Inl err \<Rightarrow> Inr (None, Some (Wrap err ''Error reading src''))
      | Inr srcBytes \<Rightarrow>
          if ToUpper encoding \<noteq> ''UTF-8'' then Inr (None, Some ErrUnsupportedEncoding)
          else
            (case ParseFile srcBytes of
               Inl err \<Rightarrow>
                 Inr (Some
                   \<lparr> File.LocationSpan =
                       \<lparr> LocationSpan.Start = \<lparr> Location.Line = 1, Location.Column = 0 \<rparr>,
                         LocationSpan.End = \<lparr> Location.Line = 1, Location.Column = 0 \<rparr> \<rparr>,
                     File.FooterSpan = \<lparr> RuneSpan.Start = 0, RuneSpan.End = - 1 \<rparr>,
                     File.Containers = [],
                     File.Nodes = [],
                     File.ParsingErrors =
                       [ \<lparr> ParsingError.Location = \<lparr> Location.Line = 1, Location.Column = 0 \<rparr>,
                           Message = Error err \<rparr> ] \<rparr>, None)
             | Inr (fset, srcAST) \<Rightarrow>
                 (case Walk_File \<lparr> FileSet = fset, File = None, Blocks = [] \<rparr> srcAST of
                    Inl p \<Rightarrow> Inl p
                  | Inr fv \<Rightarrow>
                      (case File fv of
                         None \<Rightarrow> Inl NilPointerDereference
                       | Some f \<Rightarrow>
                           (case fixBlockBoundaries f (Blocks fv) srcBytes of
                              (f', Some err) \<Rightarrow>
                                Inr (None, Some (Wrap err ''Error reading fixing boundaries''))
                            | (f', None) \<Rightarrow> Inr (Some f', None))))))"

text \<open>
  \<open>Parse\<close> once more, for a native parser and a boundary fixer that are not taken
  to be functions of their arguments: each gives the set of results it may return for
  given arguments, and a call of \<open>Parse\<close> meets one of them. \<open>Parse_runs\<close> is the body
  of \<open>Parse\<close> with, at each return, the results the call may return.
\<close>

type_synonym native_parser_runs = "string \<Rightarrow> (scanner_Error + token_FileSet \<times> ast_File) set"
type_synonym boundary_fixer_runs = "File \<Rightarrow> block list \<Rightarrow> string \<Rightarrow> (File \<times> error option) set"

definition Parse_runs ::
  "native_parser_runs \<Rightarrow> boundary_fixer_runs \<Rightarrow> Reader \<Rightarrow> string \<Rightarrow>
   (panic + File option \<times> error option) set" where
  "Parse_runs ParseFile fixBlockBoundaries src encoding =
     (case ReadAll src of
        Inl err \<Rightarrow> {Inr (None, Some (Wrap err ''Error reading src''))}
      | Inr srcBytes \<Rightarrow>
          if ToUpper encoding \<noteq> ''UTF-8'' then {Inr (None, Some ErrUnsupportedEncoding)}
          else
            (\<Union>parsed \<in> ParseFile srcBytes.
               case parsed of
                 Inl err \<Rightarrow>
                   {Inr (Some
                     \<lparr> File.LocationSpan =
                         \<lparr> LocationSpan.Start = \<lparr> Location.Line = 1, Location.Column = 0 \<rparr>,
                           LocationSpan.End = \<lparr> Location.Line = 1, Location.Column = 0 \<rparr> \<rparr>,
                       File.FooterSpan = \<lparr> RuneSpan.Start = 0, RuneSpan.End = - 1 \<rparr>,
                       File.Containers = [],
                       File.Nodes = [],
                       File.ParsingErrors =
                         [ \<lparr> ParsingError.Location = \<lparr> Location.Line = 1, Location.Column = 0 \<rparr>,
                             Message = Error err \<rparr> ] \<rparr>, None)}
               | Inr (fset, srcAST) \<Rightarrow>
                   (case Walk_File \<lparr> FileSet = fset, File = None, Blocks = [] \<rparr> srcAST of
                      Inl p \<Rightarrow> {Inl p}
                    | Inr fv \<Rightarrow>
                        (case File fv of
                           None \<Rightarrow> {Inl NilPointerDereference}
                         | Some f \<Rightarrow>
                             (\<Union>fixed \<in> fixBlockBoundaries f (Blocks fv) srcBytes.
                                case fixed of
                                  (f', Some err) \<Rightarrow>
                                    {Inr (None, Some (Wrap err ''Error reading fixing boundaries''))}
                                | (f', None) \<Rightarrow> {Inr (Some f', None)})))))"

section \<open>Notions the statements use\<close>

text \<open>
  The case variants of \<open>UTF-8\<close>: the strings that match it when the case of letters is
  ignored.
\<close>

definition caseInsensitiveUTF8 :: "string \<Rightarrow> bool" where
  "caseInsensitiveUTF8 enc =
     (case enc of
        [c1, c2, c3, c4, c5] \<Rightarrow>
          (c1 = CHR ''U'' \<or> c1 = CHR ''u'') \<and> (c2 = CHR ''T'' \<or> c2 = CHR ''t'') \<and>
          (c3 = CHR ''F'' \<or> c3 = CHR ''f'') \<and> c4 = CHR ''-'' \<and> c5 = CHR ''8''
      | _ \<Rightarrow> False)"

text \<open>The function declarations among a list of nodes, in order.\<close>

fun funcDecls :: "ast_Node list \<Rightarrow> ast_FuncDecl list" where
  "funcDecls [] = []"
| "funcDecls (FuncDecl d cs # ns) = d # funcDecls ns"
| "funcDecls (GenDecl d cs # ns) = funcDecls ns"
| "funcDecls (OtherNode p e cs # ns) = funcDecls ns"

text \<open>The block \<open>Visit\<close> appends for a top-level node.\<close>

definition nodeBlockOf :: "Node \<Rightarrow> block" where
  "nodeBlockOf n = \<lparr> block.Type = nodeBlock, Node = Some n, Container = None \<rparr>"

section \<open>Example sources\<close>

text \<open>
  The positions of a fresh file set that holds one file with the given content: the file
  has base 1, so the offset of a position is the position minus one; lines and columns
  count from 1.
\<close>

definition PositionIn :: "string \<Rightarrow> token_FileSet" where
  "PositionIn src p =
     (let pre = take (nat (p - 1)) src in
      \<lparr> Offset = p - 1,
        Line = 1 + int (count_list pre (CHR 0x0A)),
        Column = 1 + int (length (takeWhile (\<lambda>c. c \<noteq> CHR 0x0A) (rev pre))) \<rparr>)"

text \<open>A package clause and a function with a body, as in \<open>TestParseSimpleFunc\<close>.\<close>

definition simple_func_src :: string where
  "simple_func_src =
     ''package simplefunc\<newline>\<newline>func Hi() {\<newline>'' @ [CHR 0x09] @ ''println(123)\<newline>}\<newline>''"

definition simple_func_Hi :: ast_FuncDecl where
  "simple_func_Hi =
     \<lparr> ast_FuncDecl.Name = \<lparr> NamePos = 26, Name = ''Hi'' \<rparr>,
       Func = 21, Type_End = 30,
       Body = Some \<lparr> Lbrace = 31, Rbrace = 47 \<rparr> \<rparr>"

definition simple_func_ast :: ast_File where
  "simple_func_ast =
     \<lparr> Doc = None, Package = 1,
       ast_File.Name = \<lparr> NamePos = 9, Name = ''simplefunc'' \<rparr>,
       Decls =
         [FuncDecl simple_func_Hi
            [OtherNode 26 28 [], OtherNode 21 30 [OtherNode 28 30 []],
             OtherNode 31 48 [OtherNode 34 46 [OtherNode 34 41 [], OtherNode 42 45 []]]]] \<rparr>"

text \<open>A package clause and two constant declarations, as in \<open>TestParseSimpleConst\<close>.\<close>

definition simple_const_src :: string where
  "simple_const_src =
     ''package simpleconst\<newline>\<newline>const N = 1\<newline>\<newline>const Name = 12345678901\<newline>''"

definition simple_const_ast :: ast_File where
  "simple_const_ast =
     \<lparr> Doc = None, Package = 1,
       ast_File.Name = \<lparr> NamePos = 9, Name = ''simpleconst'' \<rparr>,
       Decls =
         [GenDecl \<lparr> TokPos = 22, Tok = token_CONST, Specs = [ValueSpec [''N'']], EndPos = 33 \<rparr>
            [OtherNode 28 33 [OtherNode 28 29 [], OtherNode 32 33 []]],
          GenDecl \<lparr> TokPos = 35, Tok = token_CONST, Specs = [ValueSpec [''Name'']], EndPos = 59 \<rparr>
            [OtherNode 41 59 [OtherNode 41 45 [], OtherNode 48 59 []]]] \<rparr>"

text \<open>
  A struct type with one field, followed by a function, as in \<open>TestParseSimpleStruct\<close>.
\<close>

definition simple_struct_src :: string where
  "simple_struct_src =
     ''package simplestruct\<newline>type Person struct {\<newline>'' @ [CHR 0x09] @
     ''Name string\<newline>}\<newline>func SayHi() {\<newline>}\<newline>''"

definition simple_struct_ast :: ast_File where
  "simple_struct_ast =
     \<lparr> Doc = None, Package = 1,
       ast_File.Name = \<lparr> NamePos = 9, Name = ''simplestruct'' \<rparr>,
       Decls =
         [GenDecl \<lparr> TokPos = 22, Tok = token_TYPE,
                    Specs = [TypeSpec ''Person'' (Some [''Name''])], EndPos = 57 \<rparr>
            [OtherNode 27 57
               [OtherNode 27 33 [],
                OtherNode 34 57 [OtherNode 41 57 [OtherNode 44 55 [OtherNode 44 48 [], OtherNode 49 55 []]]]]],
          FuncDecl
            \<lparr> ast_FuncDecl.Name = \<lparr> NamePos = 63, Name = ''SayHi'' \<rparr>,
              Func = 58, Type_End = 70,
              Body = Some \<lparr> Lbrace = 71, Rbrace = 73 \<rparr> \<rparr>
            [OtherNode 63 68 [], OtherNode 58 70 [OtherNode 68 70 []], OtherNode 71 74 []]] \<rparr>"

text \<open>
  A source with a syntax error on its second line, and the error go/parser reports for
  it; the error it reports for the empty source, as in \<open>TestParseEmpty\<close>.
\<close>

definition broken_src :: string where
  "broken_src = ''package p\<newline>foo\<newline>''"

definition broken_err :: scanner_Error where
  "broken_err =
     \<lparr> ErrLine = 2, ErrColumn = 1,
       Error = ''2:1: expected declaration, found 'IDENT' foo'' \<rparr>"

definition empty_err :: scanner_Error where
  "empty_err =
     \<lparr> ErrLine = 1, ErrColumn = 1,
       Error = ''1:1: expected 'package', found 'EOF'' @ [CHR 0x27] \<rparr>"

text \<open>
  The results of \<open>parser.ParseFile\<close> on the sources above, as a table; any other source
  is answered like the empty one.
\<close>

definition exampleParseFile :: native_parser where
  "exampleParseFile src =
     (if src = simple_func_src then Inr (PositionIn src, simple_func_ast)
      else if src = simple_const_src then Inr (PositionIn src, simple_const_ast)
      else if src = simple_struct_src then Inr (PositionIn src, simple_struct_ast)
      else if src = broken_src then Inl broken_err
      else Inl empty_err)"

text \<open>A native parser that may report either of the two errors on any source.\<close>

definition fickleParseFile :: native_parser_runs where
  "fickleParseFile src = {Inl empty_err, Inl broken_err}"

text \<open>A boundary fixer that leaves the file as the walk built it and reports no error.\<close>

definition keepBoundaries :: boundary_fixer where
  "keepBoundaries f blocks src = (f, None)"


section \<open>Facts about the library functions\<close>

lemma toUpperByte_eq_iff:
  "toUpperByte c = d \<longleftrightarrow>
     (if 97 \<le> (of_char c :: nat) \<and> (of_char c :: nat) \<le> 122
      then (of_char c :: nat) = of_char d + 32 else c = d)"
proof -
  let ?n = "of_char c :: nat"
  show ?thesis
  proof (cases "97 \<le> ?n \<and> ?n \<le> 122")
    case True
    have "?n - 32 < 256" by (rule less_imp_diff_less) simp
    then have "?n - 32 < 2 ^ 8" by simp
    then have "take_bit 8 (?n - 32) = ?n - 32"
      by (rule take_bit_nat_eq_self)
    then have "char_of (?n - 32) = d \<longleftrightarrow> ?n - 32 = of_char d"
      by (simp add: char_of_eq_iff)
    then show ?thesis using True by (auto simp: toUpperByte_def Let_def)
  next
    case False
    then show ?thesis by (auto simp: toUpperByte_def Let_def)
  qed
qed

lemma toUpperByte_U: "toUpperByte c = CHR ''U'' \<longleftrightarrow> c = CHR ''U'' \<or> c = CHR ''u''"
proof -
  have "(of_char c :: nat) = 117 \<longleftrightarrow> c = CHR ''u''"
    using of_char_eq_iff [of c "CHR ''u''", where ?'a = nat] by simp
  moreover have "c = CHR ''U'' \<Longrightarrow> \<not> 97 \<le> (of_char c :: nat)" by simp
  ultimately show ?thesis by (auto simp: toUpperByte_eq_iff)
qed

lemma toUpperByte_T: "toUpperByte c = CHR ''T'' \<longleftrightarrow> c = CHR ''T'' \<or> c = CHR ''t''"
proof -
  have "(of_char c :: nat) = 116 \<longleftrightarrow> c = CHR ''t''"
    using of_char_eq_iff [of c "CHR ''t''", where ?'a = nat] by simp
  moreover have "c = CHR ''T'' \<Longrightarrow> \<not> 97 \<le> (of_char c :: nat)" by simp
  ultimately show ?thesis by (auto simp: toUpperByte_eq_iff)
qed

lemma toUpperByte_F: "toUpperByte c = CHR ''F'' \<longleftrightarrow> c = CHR ''F'' \<or> c = CHR ''f''"
proof -
  have "(of_char c :: nat) = 102 \<longleftrightarrow> c = CHR ''f''"
    using of_char_eq_iff [of c "CHR ''f''", where ?'a = nat] by simp
  moreover have "c = CHR ''F'' \<Longrightarrow> \<not> 97 \<le> (of_char c :: nat)" by simp
  ultimately show ?thesis by (auto simp: toUpperByte_eq_iff)
qed

lemma toUpperByte_dash: "toUpperByte c = CHR ''-'' \<longleftrightarrow> c = CHR ''-''"
proof -
  have "c = CHR ''-'' \<Longrightarrow> \<not> 97 \<le> (of_char c :: nat)" by simp
  then show ?thesis by (auto simp: toUpperByte_eq_iff)
qed

lemma toUpperByte_8: "toUpperByte c = CHR ''8'' \<longleftrightarrow> c = CHR ''8''"
proof -
  have "c = CHR ''8'' \<Longrightarrow> \<not> 97 \<le> (of_char c :: nat)" by simp
  then show ?thesis by (auto simp: toUpperByte_eq_iff)
qed

text \<open>The comparison \<open>Parse\<close> makes accepts exactly the case variants of \<open>UTF-8\<close>.\<close>

lemma ToUpper_UTF8_iff: "ToUpper enc = ''UTF-8'' \<longleftrightarrow> caseInsensitiveUTF8 enc"
  by (auto simp: ToUpper_def caseInsensitiveUTF8_def toUpperByte_U toUpperByte_T toUpperByte_F
        toUpperByte_dash toUpperByte_8 split: list.splits)

lemma ReadAll_Chunk_EOF: "ReadAll (Chunk b EOF) = Inr b"
  by simp

section \<open>The walk\<close>

text \<open>
  \<open>Visit\<close> returns nil on every node below the file node, so \<open>ast.Walk\<close> never visits
  the children of such a node: a walk from it is the one call of \<open>Visit\<close>.
\<close>

lemma Visit_Node_returns_nil: "Visit v (V_Node n) = Inr (w, descend) \<Longrightarrow> \<not> descend"
  by (cases n) (auto simp: Visit_def Let_def split: option.splits)

lemma Visit_nil: "Visit v V_nil = Inr (v, False)"
  by (simp add: Visit_def)

lemma Walk_eq_Visit: "Walk v n = map_sum id fst (Visit v (V_Node n))"
proof (cases "Visit v (V_Node n)")
  case (Inl p)
  then show ?thesis by simp
next
  case (Inr r)
  obtain w d where r: "r = (w, d)" by (cases r)
  with Inr have "\<not> d" using Visit_Node_returns_nil by blast
  with Inr r show ?thesis by simp
qed

lemma Walk_FuncDecl:
  "File v = Some f \<Longrightarrow>
   Walk v (FuncDecl d cs) =
     Inr (v\<lparr> File := Some (f\<lparr> File.Nodes := File.Nodes f @ [createFunc (FileSet v) d] \<rparr>),
             Blocks := Blocks v @ [nodeBlockOf (createFunc (FileSet v) d)] \<rparr>)"
  by (simp add: Walk_eq_Visit Visit_def Let_def nodeBlockOf_def)

lemma Walk_GenDecl: "Walk v (GenDecl d cs) = Inr v"
  by (simp add: Walk_eq_Visit Visit_def)

lemma Walk_OtherNode: "Walk v (OtherNode p e cs) = Inr v"
  by (simp add: Walk_eq_Visit Visit_def)

lemma walkList_emits:
  "File v = Some f \<Longrightarrow>
   walkList v ns =
     Inr (v\<lparr> File := Some (f\<lparr> File.Nodes :=
                 File.Nodes f @ map (createFunc (FileSet v)) (funcDecls ns) \<rparr>),
             Blocks := Blocks v @
                 map (nodeBlockOf \<circ> createFunc (FileSet v)) (funcDecls ns) \<rparr>)"
proof (induction ns arbitrary: v f)
  case Nil
  then show ?case by simp
next
  case (Cons n ns)
  show ?case
  proof (cases n)
    case (FuncDecl d cs)
    let ?v = "v\<lparr> File := Some (f\<lparr> File.Nodes := File.Nodes f @ [createFunc (FileSet v) d] \<rparr>),
             Blocks := Blocks v @ [nodeBlockOf (createFunc (FileSet v) d)] \<rparr>"
    have "File ?v = Some (f\<lparr> File.Nodes := File.Nodes f @ [createFunc (FileSet v) d] \<rparr>)" by simp
    from Cons.IH [OF this] Walk_FuncDecl [OF Cons.prems, of d cs] FuncDecl
    show ?thesis by simp
  next
    case (GenDecl d cs)
    with Cons.IH [OF Cons.prems] show ?thesis by (simp add: Walk_GenDecl del: Walk.simps)
  next
    case (OtherNode p e cs)
    with Cons.IH [OF Cons.prems] show ?thesis by (simp add: Walk_OtherNode del: Walk.simps)
  qed
qed

lemma funcDecls_append: "funcDecls (xs @ ys) = funcDecls xs @ funcDecls ys"
  by (induction xs rule: funcDecls.induct) simp_all

lemma Walk_File_eq:
  "Walk_File \<lparr> FileSet = fset, File = None, Blocks = [] \<rparr> n =
     Inr \<lparr> FileSet = fset,
           File = Some ((createFile fset n)
                    \<lparr> File.Nodes := File.Nodes (createFile fset n) @
                        map (createFunc fset) (funcDecls (Decls n)) \<rparr>),
           Blocks = map nodeBlockOf (File.Nodes (createFile fset n) @
                        map (createFunc fset) (funcDecls (Decls n))) \<rparr>"
proof -
  obtain pkg where pkg: "File.Nodes (createFile fset n) = [pkg]"
    by (simp add: createFile_def)
  let ?v = "\<lparr> FileSet = fset, File = Some (createFile fset n), Blocks = [nodeBlockOf pkg] \<rparr>"
  have V: "Visit \<lparr> FileSet = fset, File = None, Blocks = [] \<rparr> (V_File n) = Inr (?v, True)"
    using pkg by (simp add: Visit_def Let_def nodeBlockOf_def)
  have F: "File ?v = Some (createFile fset n)" by simp
  have D: "funcDecls ((case Doc n of None \<Rightarrow> [] | Some (p, e) \<Rightarrow> [OtherNode p e []]) @
                        IdentNode (ast_File.Name n) # Decls n) = funcDecls (Decls n)"
    by (simp add: funcDecls_append IdentNode_def split: option.splits)
  show ?thesis
    unfolding Walk_File_def V
    by (simp add: walkList_emits [OF F] D Visit_nil pkg del: walkList.simps)
qed

section \<open>Parse, case by case\<close>

lemma caseInsensitiveUTF8_upper: "caseInsensitiveUTF8 ''UTF-8''"
  by (simp add: caseInsensitiveUTF8_def)

text \<open>
  The unsupported-encoding error is neither of the two wrapped errors \<open>Parse\<close> returns.
\<close>

lemma ErrUnsupportedEncoding_distinct: "ErrUnsupportedEncoding \<noteq> Wrap err msg"
  by (simp add: ErrUnsupportedEncoding_def)

lemma Parse_unsupported_eq:
  assumes "ReadAll src = Inr srcBytes" and "\<not> caseInsensitiveUTF8 encoding"
  shows "Parse ParseFile fixBlockBoundaries src encoding =
     Inr (None, Some ErrUnsupportedEncoding)"
  using assms by (simp add: Parse_def ToUpper_UTF8_iff)

lemma Parse_failure_eq:
  assumes "ReadAll src = Inr srcBytes" and "caseInsensitiveUTF8 encoding"
    and "ParseFile srcBytes = Inl err"
  shows "Parse ParseFile fixBlockBoundaries src encoding =
     Inr (Some
       \<lparr> File.LocationSpan =
           \<lparr> LocationSpan.Start = \<lparr> Location.Line = 1, Location.Column = 0 \<rparr>,
             LocationSpan.End = \<lparr> Location.Line = 1, Location.Column = 0 \<rparr> \<rparr>,
         File.FooterSpan = \<lparr> RuneSpan.Start = 0, RuneSpan.End = - 1 \<rparr>,
         File.Containers = [],
         File.Nodes = [],
         File.ParsingErrors =
           [ \<lparr> ParsingError.Location = \<lparr> Location.Line = 1, Location.Column = 0 \<rparr>,
               Message = Error err \<rparr> ] \<rparr>, None)"
  using assms by (simp add: Parse_def ToUpper_UTF8_iff)

lemma Parse_success_eq:
  assumes "ReadAll src = Inr srcBytes" and "caseInsensitiveUTF8 encoding"
    and "ParseFile srcBytes = Inr (fset, srcAST)"
  shows "Parse ParseFile fixBlockBoundaries src encoding =
     (case fixBlockBoundaries
             ((createFile fset srcAST)
                \<lparr> File.Nodes := File.Nodes (createFile fset srcAST) @
                     map (createFunc fset) (funcDecls (Decls srcAST)) \<rparr>)
             (map nodeBlockOf (File.Nodes (createFile fset srcAST) @
                     map (createFunc fset) (funcDecls (Decls srcAST))))
             srcBytes of
        (f', Some err) \<Rightarrow> Inr (None, Some (Wrap err ''Error reading fixing boundaries''))
      | (f', None) \<Rightarrow> Inr (Some f', None))"
  using assms by (simp add: Parse_def ToUpper_UTF8_iff Walk_File_eq)

text \<open>
  \<open>Parse\<close> returns on every input: neither \<open>v.File.Nodes[0]\<close> nor \<open>v.File.Nodes\<close>
  panics, as the walk starts at the file node.
\<close>

lemma Parse_never_panics: "\<exists>r. Parse ParseFile fixBlockBoundaries src encoding = Inr r"
  by (auto simp: Parse_def Walk_File_eq split: sum.splits prod.splits option.splits)

lemma exampleParseFile_empty: "exampleParseFile [] = Inl empty_err"
  by (simp add: exampleParseFile_def simple_func_src_def simple_const_src_def
        simple_struct_src_def broken_src_def)

lemma exampleParseFile_broken: "exampleParseFile broken_src = Inl broken_err"
  by (simp add: exampleParseFile_def simple_func_src_def simple_const_src_def
        simple_struct_src_def broken_src_def)

lemma exampleParseFile_simple_func:
  "exampleParseFile simple_func_src = Inr (PositionIn simple_func_src, simple_func_ast)"
  by (simp add: exampleParseFile_def)

lemma funcDecls_mem: "FuncDecl d cs \<in> set ns \<Longrightarrow> d \<in> set (funcDecls ns)"
  by (induction ns rule: funcDecls.induct) auto

section \<open>Positions in the example sources\<close>

lemma PositionIn_simple_func:
  "PositionIn simple_func_src 1 = \<lparr> Offset = 0, Line = 1, Column = 1 \<rparr>"
  "PositionIn simple_func_src 9 = \<lparr> Offset = 8, Line = 1, Column = 9 \<rparr>"
  "PositionIn simple_func_src 19 = \<lparr> Offset = 18, Line = 1, Column = 19 \<rparr>"
  "PositionIn simple_func_src 21 = \<lparr> Offset = 20, Line = 3, Column = 1 \<rparr>"
  "PositionIn simple_func_src 48 = \<lparr> Offset = 47, Line = 5, Column = 2 \<rparr>"
  by (simp_all add: PositionIn_def simple_func_src_def Let_def)

lemma PositionIn_simple_const:
  "PositionIn simple_const_src 1 = \<lparr> Offset = 0, Line = 1, Column = 1 \<rparr>"
  "PositionIn simple_const_src 9 = \<lparr> Offset = 8, Line = 1, Column = 9 \<rparr>"
  "PositionIn simple_const_src 20 = \<lparr> Offset = 19, Line = 1, Column = 20 \<rparr>"
  "PositionIn simple_const_src 59 = \<lparr> Offset = 58, Line = 5, Column = 25 \<rparr>"
  by (simp_all add: PositionIn_def simple_const_src_def Let_def)

lemma PositionIn_simple_struct:
  "PositionIn simple_struct_src 1 = \<lparr> Offset = 0, Line = 1, Column = 1 \<rparr>"
  "PositionIn simple_struct_src 9 = \<lparr> Offset = 8, Line = 1, Column = 9 \<rparr>"
  "PositionIn simple_struct_src 21 = \<lparr> Offset = 20, Line = 1, Column = 21 \<rparr>"
  "PositionIn simple_struct_src 58 = \<lparr> Offset = 57, Line = 5, Column = 1 \<rparr>"
  "PositionIn simple_struct_src 74 = \<lparr> Offset = 73, Line = 6, Column = 2 \<rparr>"
  by (simp_all add: PositionIn_def simple_struct_src_def Let_def)

section \<open>Parse with collaborators that may answer in several ways\<close>


text \<open>The results of the two branches after the native parse are among the runs.\<close>

lemma Parse_runs_failure:
  assumes "ReadAll src = Inr srcBytes" and "ToUpper encoding = ''UTF-8''"
    and "Inl err \<in> ParseFile srcBytes"
  shows "Inr (Some
           \<lparr> File.LocationSpan =
               \<lparr> LocationSpan.Start = \<lparr> Location.Line = 1, Location.Column = 0 \<rparr>,
                 LocationSpan.End = \<lparr> Location.Line = 1, Location.Column = 0 \<rparr> \<rparr>,
             File.FooterSpan = \<lparr> RuneSpan.Start = 0, RuneSpan.End = - 1 \<rparr>,
             File.Containers = [],
             File.Nodes = [],
             File.ParsingErrors =
               [ \<lparr> ParsingError.Location = \<lparr> Location.Line = 1, Location.Column = 0 \<rparr>,
                   Message = Error err \<rparr> ] \<rparr>, None)
         \<in> Parse_runs ParseFile fixBlockBoundaries src encoding"
  unfolding Parse_runs_def using assms(1,2)
  by simp (rule bexI [OF _ assms(3)], simp)

lemma Parse_runs_success:
  assumes "ReadAll src = Inr srcBytes" and "ToUpper encoding = ''UTF-8''"
    and "Inr (fset, srcAST) \<in> ParseFile srcBytes"
    and "(f', e) \<in> fixBlockBoundaries
             ((createFile fset srcAST)
                \<lparr> File.Nodes := File.Nodes (createFile fset srcAST) @
                     map (createFunc fset) (funcDecls (Decls srcAST)) \<rparr>)
             (map nodeBlockOf (File.Nodes (createFile fset srcAST) @
                     map (createFunc fset) (funcDecls (Decls srcAST))))
             srcBytes"
  shows "(case e of
            Some err \<Rightarrow> Inr (None, Some (Wrap err ''Error reading fixing boundaries''))
          | None \<Rightarrow> Inr (Some f', None))
         \<in> Parse_runs ParseFile fixBlockBoundaries src encoding"
  unfolding Parse_runs_def using assms
  by (auto simp: Walk_File_eq split: option.splits
        intro!: bexI [where x = "Inr (fset, srcAST)"] bexI [where x = "(f', e)"])

text \<open>A call returns whenever the collaborators do.\<close>

lemma Parse_runs_returns:
  assumes P: "\<And>bs. ParseFile bs \<noteq> {}"
    and F: "\<And>f blocks bs. fixBlockBoundaries f blocks bs \<noteq> {}"
  shows "Parse_runs ParseFile fixBlockBoundaries src encoding \<noteq> {}"
proof (cases "ReadAll src")
  case (Inl err)
  then show ?thesis by (simp add: Parse_runs_def)
next
  case (Inr srcBytes)
  from P [of srcBytes] obtain parsed where parsed: "parsed \<in> ParseFile srcBytes" by blast
  show ?thesis
  proof (cases "ToUpper encoding = ''UTF-8''")
    case False
    with Inr show ?thesis by (simp add: Parse_runs_def)
  next
    case True
    show ?thesis
    proof (cases parsed)
      case (Inl err)
      with Parse_runs_failure [OF Inr True, of err ParseFile fixBlockBoundaries] parsed
      show ?thesis by blast
    next
      case Pr: (Inr a)
      obtain fset srcAST where a: "a = (fset, srcAST)" by (cases a)
      let ?f = "(createFile fset srcAST)
                \<lparr> File.Nodes := File.Nodes (createFile fset srcAST) @
                     map (createFunc fset) (funcDecls (Decls srcAST)) \<rparr>"
      let ?b = "map nodeBlockOf (File.Nodes (createFile fset srcAST) @
                     map (createFunc fset) (funcDecls (Decls srcAST)))"
      from F [of ?f ?b srcBytes] obtain f' e where "(f', e) \<in> fixBlockBoundaries ?f ?b srcBytes"
        by fastforce
      with Parse_runs_success [OF Inr True, of fset srcAST ParseFile f' e fixBlockBoundaries]
        parsed Pr a
      show ?thesis by blast
    qed
  qed
qed

text \<open>
  With a native parser that may answer in two ways, two calls on the same input can
  return different Files.
\<close>

lemma Parse_runs_fickle:
  "\<exists>r1 r2. r1 \<in> Parse_runs fickleParseFile (\<lambda>f blocks bs. {keepBoundaries f blocks bs}) EOF ''UTF-8'' \<and>
           r2 \<in> Parse_runs fickleParseFile (\<lambda>f blocks bs. {keepBoundaries f blocks bs}) EOF ''UTF-8'' \<and>
           r1 \<noteq> r2"
proof -
  have "Error empty_err \<noteq> Error broken_err"
    by (simp add: empty_err_def broken_err_def)
  then show ?thesis
    by (auto simp: Parse_runs_def fickleParseFile_def caseInsensitiveUTF8_upper
          ToUpper_UTF8_iff)
qed

section \<open>Claims about the entry function\<close>

text \<open>
  C10: the source is read in full before the encoding is looked at. When reading fails,
  \<open>Parse\<close> returns a nil File and the read error, wrapped, whatever the encoding string
  is, an unsupported one included.
\<close>

theorem Parse_read_error_first:
  "ReadAll src = Inl err \<Longrightarrow>
   Parse ParseFile fixBlockBoundaries src encoding =
     Inr (None, Some (Wrap err ''Error reading src''))"
  by (simp add: Parse_def)

theorem Parse_read_error_first_witness:
  "ReadAll (Chunk ''package p'' (Fail (New ''connection reset''))) =
     Inl (New ''connection reset'') \<and>
   \<not> caseInsensitiveUTF8 ''ISO-8859-1'' \<and>
   Parse exampleParseFile keepBoundaries (Chunk ''package p'' (Fail (New ''connection reset'')))
       ''ISO-8859-1'' =
     Inr (None, Some (Wrap (New ''connection reset'') ''Error reading src''))"
  using Parse_read_error_first [of "Chunk ''package p'' (Fail (New ''connection reset''))"
      "New ''connection reset''" exampleParseFile keepBoundaries "''ISO-8859-1''"]
  by (simp add: caseInsensitiveUTF8_def)

text \<open>
  C2: for every input the reader delivers and every encoding string, \<open>Parse\<close> returns a
  nil File and \<open>ErrUnsupportedEncoding\<close> exactly when the string is not a case variant
  of \<open>UTF-8\<close>. The native parser and the boundary fixer are arbitrary here: the result
  is the same whatever they would answer, so neither is consulted. A case variant such as
  \<open>utf-8\<close> never gets this error. The error differs from the wrapped errors of the
  other failures.
\<close>

theorem Parse_encoding_gate:
  "ReadAll src = Inr srcBytes \<Longrightarrow>
   (Parse ParseFile fixBlockBoundaries src encoding = Inr (None, Some ErrUnsupportedEncoding))
     = (\<not> caseInsensitiveUTF8 encoding)"
  by (auto simp: Parse_def ToUpper_UTF8_iff Walk_File_eq ErrUnsupportedEncoding_def
        split: sum.splits option.splits prod.splits)

theorem Parse_encoding_gate_witness:
  "ReadAll EOF = Inr [] \<and>
   \<not> caseInsensitiveUTF8 ''ISO-8859-1'' \<and>
   Parse exampleParseFile keepBoundaries EOF ''ISO-8859-1'' =
     Inr (None, Some ErrUnsupportedEncoding) \<and>
   caseInsensitiveUTF8 ''utf-8'' \<and>
   Parse exampleParseFile keepBoundaries EOF ''utf-8'' \<noteq>
     Inr (None, Some ErrUnsupportedEncoding)"
  using Parse_encoding_gate [of EOF "[]" exampleParseFile keepBoundaries "''ISO-8859-1''"]
    Parse_encoding_gate [of EOF "[]" exampleParseFile keepBoundaries "''utf-8''"]
  by (simp add: caseInsensitiveUTF8_def)

text \<open>
  C1: when the native parse of the input fails, the empty input included, \<open>Parse\<close> with
  encoding \<open>UTF-8\<close> returns a nil error and a File whose locationSpan is \<open>{1,0}-{1,0}\<close>,
  whose footerSpan is \<open>{0,-1}\<close>, whose containers and nodes are empty and whose
  parsingErrors has exactly one entry.
\<close>

theorem Parse_syntax_error_file:
  assumes "ReadAll src = Inr srcBytes" and "ParseFile srcBytes = Inl err"
  shows "\<exists>file. Parse ParseFile fixBlockBoundaries src ''UTF-8'' = Inr (Some file, None) \<and>
           File.LocationSpan file =
             \<lparr> LocationSpan.Start = \<lparr> Location.Line = 1, Location.Column = 0 \<rparr>,
               LocationSpan.End = \<lparr> Location.Line = 1, Location.Column = 0 \<rparr> \<rparr> \<and>
           File.FooterSpan file = \<lparr> RuneSpan.Start = 0, RuneSpan.End = - 1 \<rparr> \<and>
           File.Containers file = [] \<and>
           File.Nodes file = [] \<and>
           length (File.ParsingErrors file) = 1"
  using Parse_failure_eq [where ParseFile = ParseFile and err = err and src = src
      and encoding = "''UTF-8''" and fixBlockBoundaries = fixBlockBoundaries]
    assms caseInsensitiveUTF8_upper
  by simp

theorem Parse_syntax_error_file_witness:
  "ReadAll EOF = Inr [] \<and> exampleParseFile [] = Inl empty_err \<and>
   (\<exists>file. Parse exampleParseFile keepBoundaries EOF ''UTF-8'' = Inr (Some file, None) \<and>
           File.LocationSpan file =
             \<lparr> LocationSpan.Start = \<lparr> Location.Line = 1, Location.Column = 0 \<rparr>,
               LocationSpan.End = \<lparr> Location.Line = 1, Location.Column = 0 \<rparr> \<rparr> \<and>
           File.FooterSpan file = \<lparr> RuneSpan.Start = 0, RuneSpan.End = - 1 \<rparr> \<and>
           File.Containers file = [] \<and>
           File.Nodes file = [] \<and>
           length (File.ParsingErrors file) = 1)"
proof -
  have r: "ReadAll EOF = Inr []" by simp
  from Parse_syntax_error_file [where ParseFile = exampleParseFile and src = EOF
      and srcBytes = "[]" and err = empty_err and fixBlockBoundaries = keepBoundaries]
    r exampleParseFile_empty
  show ?thesis by simp
qed

text \<open>
  C5, as the code has it: when the native parse fails, the one ParsingError of the File
  has the fixed location \<open>{1,0}\<close>, whatever the line and column of the parser's error,
  and its message is the text of the parser's error, unchanged.
\<close>

theorem Parse_error_location_fixed:
  assumes "ReadAll src = Inr srcBytes" and "caseInsensitiveUTF8 encoding"
    and "ParseFile srcBytes = Inl err"
  shows "\<exists>file. Parse ParseFile fixBlockBoundaries src encoding = Inr (Some file, None) \<and>
           File.ParsingErrors file =
             [ \<lparr> ParsingError.Location = \<lparr> Location.Line = 1, Location.Column = 0 \<rparr>,
                 Message = Error err \<rparr> ]"
  using Parse_failure_eq [where ParseFile = ParseFile and err = err and src = src
      and encoding = encoding and fixBlockBoundaries = fixBlockBoundaries] assms
  by simp

theorem Parse_error_location_fixed_witness:
  "ReadAll (Chunk broken_src EOF) = Inr broken_src \<and> caseInsensitiveUTF8 ''utf-8'' \<and>
   exampleParseFile broken_src = Inl broken_err \<and>
   (\<exists>file. Parse exampleParseFile keepBoundaries (Chunk broken_src EOF) ''utf-8'' =
             Inr (Some file, None) \<and>
           File.ParsingErrors file =
             [ \<lparr> ParsingError.Location = \<lparr> Location.Line = 1, Location.Column = 0 \<rparr>,
                 Message = ''2:1: expected declaration, found 'IDENT' foo'' \<rparr> ])"
proof -
  have r: "ReadAll (Chunk broken_src EOF) = Inr broken_src" by simp
  have c: "caseInsensitiveUTF8 ''utf-8''" by (simp add: caseInsensitiveUTF8_def)
  from Parse_error_location_fixed [where ParseFile = exampleParseFile
      and src = "Chunk broken_src EOF" and srcBytes = broken_src and err = broken_err
      and encoding = "''utf-8''" and fixBlockBoundaries = keepBoundaries]
    r c exampleParseFile_broken
  show ?thesis by (simp add: broken_err_def)
qed

text \<open>
  C5, as the claim has it, fails: the source \<open>broken_src\<close> has its syntax error at line
  2, column 1, and the ParsingError of the File returned for it is located at \<open>{1,0}\<close>.
\<close>

theorem Parse_error_location_counterexample:
  "exampleParseFile broken_src = Inl broken_err \<and>
   ErrLine broken_err = 2 \<and> ErrColumn broken_err = 1 \<and>
   Parse exampleParseFile keepBoundaries (Chunk broken_src EOF) ''UTF-8'' =
     Inr (Some
       \<lparr> File.LocationSpan =
           \<lparr> LocationSpan.Start = \<lparr> Location.Line = 1, Location.Column = 0 \<rparr>,
             LocationSpan.End = \<lparr> Location.Line = 1, Location.Column = 0 \<rparr> \<rparr>,
         File.FooterSpan = \<lparr> RuneSpan.Start = 0, RuneSpan.End = - 1 \<rparr>,
         File.Containers = [],
         File.Nodes = [],
         File.ParsingErrors =
           [ \<lparr> ParsingError.Location = \<lparr> Location.Line = 1, Location.Column = 0 \<rparr>,
               Message = ''2:1: expected declaration, found 'IDENT' foo'' \<rparr> ] \<rparr>, None) \<and>
   \<lparr> Location.Line = 1, Location.Column = 0 \<rparr> \<noteq>
   \<lparr> Location.Line = ErrLine broken_err, Location.Column = ErrColumn broken_err \<rparr>"
  using Parse_failure_eq [where ParseFile = exampleParseFile
      and src = "Chunk broken_src EOF" and srcBytes = broken_src and err = broken_err
      and encoding = "''UTF-8''" and fixBlockBoundaries = keepBoundaries]
    caseInsensitiveUTF8_upper exampleParseFile_broken
  by (simp add: broken_err_def)

text \<open>
  C8: the parsingErrors of the File \<open>Parse\<close> returns are non-nil only when the native
  parse fails. When it fails they hold exactly one entry; when it succeeds they are nil.
  \<open>createFile\<close> leaves them nil and \<open>Visit\<close> never sets them; the File returned on
  success is the one \<open>fixBlockBoundaries\<close> leaves, and that function, which the spec
  describes as rewriting spans, is taken not to touch the field.
\<close>

theorem Parse_ParsingErrors:
  assumes "\<And>f blocks bs.
      File.ParsingErrors (fst (fixBlockBoundaries f blocks bs)) = File.ParsingErrors f"
    and "ReadAll src = Inr srcBytes"
    and "Parse ParseFile fixBlockBoundaries src encoding = Inr (Some file, None)"
  shows "(case ParseFile srcBytes of
            Inl err \<Rightarrow> length (File.ParsingErrors file) = 1
          | Inr ast \<Rightarrow> File.ParsingErrors file = [])"
proof -
  have enc: "caseInsensitiveUTF8 encoding"
    using Parse_unsupported_eq [OF assms(2), of encoding ParseFile fixBlockBoundaries] assms(3)
    by auto
  show ?thesis
  proof (cases "ParseFile srcBytes")
    case (Inl err)
    from Parse_failure_eq [where ParseFile = ParseFile and err = err and src = src
        and encoding = encoding and fixBlockBoundaries = fixBlockBoundaries]
      assms(2,3) enc Inl
    show ?thesis by auto
  next
    case (Inr a)
    obtain fset srcAST where a: "a = (fset, srcAST)" by (cases a)
    let ?f = "(createFile fset srcAST)
                \<lparr> File.Nodes := File.Nodes (createFile fset srcAST) @
                     map (createFunc fset) (funcDecls (Decls srcAST)) \<rparr>"
    let ?b = "map nodeBlockOf (File.Nodes (createFile fset srcAST) @
                     map (createFunc fset) (funcDecls (Decls srcAST)))"
    have "file = fst (fixBlockBoundaries ?f ?b srcBytes)"
      using Parse_success_eq [where ParseFile = ParseFile and src = src and fset = fset
          and srcAST = srcAST and encoding = encoding
          and fixBlockBoundaries = fixBlockBoundaries]
        assms(2,3) enc Inr a
      by (auto split: prod.splits option.splits)
    then have "File.ParsingErrors file = File.ParsingErrors ?f"
      using assms(1) by simp
    also have "\<dots> = []" by (simp add: createFile_def)
    finally show ?thesis using Inr by simp
  qed
qed

theorem Parse_ParsingErrors_witness:
  "(\<forall>f blocks bs. File.ParsingErrors (fst (keepBoundaries f blocks bs)) = File.ParsingErrors f) \<and>
   ReadAll (Chunk simple_func_src EOF) = Inr simple_func_src \<and>
   exampleParseFile simple_func_src = Inr (PositionIn simple_func_src, simple_func_ast) \<and>
   (\<exists>file. Parse exampleParseFile keepBoundaries (Chunk simple_func_src EOF) ''UTF-8'' =
             Inr (Some file, None) \<and>
           File.ParsingErrors file = []) \<and>
   ReadAll EOF = Inr [] \<and>
   exampleParseFile [] = Inl empty_err \<and>
   (\<exists>file. Parse exampleParseFile keepBoundaries EOF ''UTF-8'' = Inr (Some file, None) \<and>
           length (File.ParsingErrors file) = 1)"
proof -
  have k: "\<And>f blocks bs.
      File.ParsingErrors (fst (keepBoundaries f blocks bs)) = File.ParsingErrors f"
    by (simp add: keepBoundaries_def)
  have r1: "ReadAll (Chunk simple_func_src EOF) = Inr simple_func_src" by simp
  have r2: "ReadAll EOF = Inr []" by simp
  obtain file1 where p1: "Parse exampleParseFile keepBoundaries (Chunk simple_func_src EOF)
      ''UTF-8'' = Inr (Some file1, None)"
    using Parse_success_eq [where ParseFile = exampleParseFile
        and src = "Chunk simple_func_src EOF" and encoding = "''UTF-8''"
        and fixBlockBoundaries = keepBoundaries, OF r1 caseInsensitiveUTF8_upper
        exampleParseFile_simple_func]
    by (simp add: keepBoundaries_def)
  obtain file2 where p2: "Parse exampleParseFile keepBoundaries EOF ''UTF-8'' =
      Inr (Some file2, None)"
    using Parse_failure_eq [where ParseFile = exampleParseFile and src = EOF
        and encoding = "''UTF-8''" and fixBlockBoundaries = keepBoundaries,
        OF r2 caseInsensitiveUTF8_upper exampleParseFile_empty]
    by simp
  from Parse_ParsingErrors [of keepBoundaries, OF k r1 p1]
    Parse_ParsingErrors [of keepBoundaries, OF k r2 p2]
  show ?thesis
    using k r1 r2 p1 p2 by (simp add: exampleParseFile_simple_func exampleParseFile_empty)
qed



section \<open>Claims about the walk\<close>

text \<open>
  C6: for every file the native parser returns, the first of the File's top-level nodes
  after the walk is a node of kind Package, named by the package identifier, whose span
  runs from the offset of the \<open>package\<close> keyword to the offset of the end of that
  identifier.
\<close>

theorem Walk_File_package_first:
  "\<exists>fv f pkg rest.
     Walk_File \<lparr> FileSet = fset, File = None, Blocks = [] \<rparr> n = Inr fv \<and>
     fileVisitor.File fv = Some f \<and>
     File.Nodes f = pkg # rest \<and>
     Node.Type pkg = PackageNode \<and>
     Node.Name pkg = ast_Ident.Name (ast_File.Name n) \<and>
     Node.Span pkg =
       \<lparr> RuneSpan.Start = Offset (Position fset (Package n)),
         RuneSpan.End = Offset (Position fset
            (NamePos (ast_File.Name n) + int (length (ast_Ident.Name (ast_File.Name n))))) \<rparr>"
  by (simp add: Walk_File_eq) (simp add: createFile_def Ident_End_def)

theorem Walk_File_package_first_witness:
  "\<exists>fv f pkg rest.
     Walk_File \<lparr> FileSet = PositionIn simple_func_src, File = None, Blocks = [] \<rparr>
        simple_func_ast = Inr fv \<and>
     fileVisitor.File fv = Some f \<and>
     File.Nodes f = pkg # rest \<and>
     Node.Type pkg = PackageNode \<and>
     Node.Name pkg = ''simplefunc'' \<and>
     Node.Span pkg = \<lparr> RuneSpan.Start = 0, RuneSpan.End = 18 \<rparr>"
  using Walk_File_package_first [of "PositionIn simple_func_src" simple_func_ast]
  by (simp add: simple_func_ast_def Position_def PositionIn_simple_func)

text \<open>
  C7: for every top-level function declaration with a body, the File after the walk has
  a node of kind Function, named by the function's identifier, whose span runs from the
  offset of the \<open>func\<close> keyword to the offset just after the closing brace of the body.
\<close>

theorem Walk_File_function_node:
  assumes "FuncDecl d cs \<in> set (Decls n)" and "Body d = Some body"
  shows "\<exists>fv f fn.
     Walk_File \<lparr> FileSet = fset, File = None, Blocks = [] \<rparr> n = Inr fv \<and>
     fileVisitor.File fv = Some f \<and>
     fn \<in> set (File.Nodes f) \<and>
     Node.Type fn = FunctionNode \<and>
     Node.Name fn = ast_Ident.Name (ast_FuncDecl.Name d) \<and>
     Node.Span fn =
       \<lparr> RuneSpan.Start = Offset (Position fset (Func d)),
         RuneSpan.End = Offset (Position fset (Rbrace body + 1)) \<rparr>"
proof -
  have "d \<in> set (funcDecls (Decls n))" using assms(1) by (rule funcDecls_mem)
  then have "createFunc fset d \<in>
      set (File.Nodes (createFile fset n) @ map (createFunc fset) (funcDecls (Decls n)))"
    by simp
  moreover have "Node.Span (createFunc fset d) =
       \<lparr> RuneSpan.Start = Offset (Position fset (Func d)),
         RuneSpan.End = Offset (Position fset (Rbrace body + 1)) \<rparr>"
    using assms(2) by (simp add: createFunc_def FuncDecl_Pos_def FuncDecl_End_def BlockStmt_End_def)
  moreover have "Node.Type (createFunc fset d) = FunctionNode"
    and "Node.Name (createFunc fset d) = ast_Ident.Name (ast_FuncDecl.Name d)"
    by (simp_all add: createFunc_def)
  ultimately show ?thesis
    by (simp add: Walk_File_eq) blast
qed

theorem Walk_File_function_node_witness:
  "FuncDecl simple_func_Hi
     [OtherNode 26 28 [], OtherNode 21 30 [OtherNode 28 30 []],
      OtherNode 31 48 [OtherNode 34 46 [OtherNode 34 41 [], OtherNode 42 45 []]]]
     \<in> set (Decls simple_func_ast) \<and>
   Body simple_func_Hi = Some \<lparr> Lbrace = 31, Rbrace = 47 \<rparr> \<and>
   (\<exists>fv f fn.
     Walk_File \<lparr> FileSet = PositionIn simple_func_src, File = None, Blocks = [] \<rparr>
        simple_func_ast = Inr fv \<and>
     fileVisitor.File fv = Some f \<and>
     fn \<in> set (File.Nodes f) \<and>
     Node.Type fn = FunctionNode \<and>
     Node.Name fn = ''Hi'' \<and>
     Node.Span fn = \<lparr> RuneSpan.Start = 20, RuneSpan.End = 47 \<rparr>)"
proof -
  have d: "FuncDecl simple_func_Hi
     [OtherNode 26 28 [], OtherNode 21 30 [OtherNode 28 30 []],
      OtherNode 31 48 [OtherNode 34 46 [OtherNode 34 41 [], OtherNode 42 45 []]]]
     \<in> set (Decls simple_func_ast)"
    by (simp add: simple_func_ast_def)
  have b: "Body simple_func_Hi = Some \<lparr> Lbrace = 31, Rbrace = 47 \<rparr>"
    by (simp add: simple_func_Hi_def)
  have n: "ast_Ident.Name (ast_FuncDecl.Name simple_func_Hi) = ''Hi''" "Func simple_func_Hi = 21"
    by (simp_all add: simple_func_Hi_def)
  from Walk_File_function_node [OF d b, of "PositionIn simple_func_src"] d b
  show ?thesis by (simp add: n Position_def PositionIn_simple_func)
qed

text \<open>
  C3 asks for one node for each top-level function, import, const and var declaration.
  \<open>Visit\<close> has a case for the file and for a function declaration only; a general
  declaration takes the default case. On a package clause followed by two constant
  declarations the walk leaves the Package node alone in the File, where
  \<open>TestParseSimpleConst\<close> expects it followed by two Const nodes.
\<close>

theorem Walk_File_simple_const:
  "map_sum id fileVisitor.File
     (Walk_File \<lparr> FileSet = PositionIn simple_const_src, File = None, Blocks = [] \<rparr>
        simple_const_ast) =
   Inr (Some
     \<lparr> File.LocationSpan =
         \<lparr> LocationSpan.Start = \<lparr> Location.Line = 1, Location.Column = 1 \<rparr>,
           LocationSpan.End = \<lparr> Location.Line = 5, Location.Column = 25 \<rparr> \<rparr>,
       File.FooterSpan = \<lparr> RuneSpan.Start = 0, RuneSpan.End = - 1 \<rparr>,
       File.Containers = [],
       File.Nodes =
         [ \<lparr> Node.Type = PackageNode, Node.Name = ''simpleconst'',
             Node.LocationSpan =
               \<lparr> LocationSpan.Start = \<lparr> Location.Line = 1, Location.Column = 1 \<rparr>,
                 LocationSpan.End = \<lparr> Location.Line = 1, Location.Column = 20 \<rparr> \<rparr>,
             Node.Span = \<lparr> RuneSpan.Start = 0, RuneSpan.End = 19 \<rparr> \<rparr> ],
       File.ParsingErrors = [] \<rparr>)"
  by (simp add: Walk_File_eq)
     (simp add: simple_const_ast_def createFile_def File_Pos_def File_End_def Ident_Pos_def
        Ident_End_def Position_def PositionIn_simple_const)

text \<open>
  C4 asks for a Container for a top-level struct type, holding its fields. A type
  declaration is a general declaration too: on a struct type \<open>Person\<close> with a field
  \<open>Name\<close> followed by a function, the walk leaves no Container in the File and no Field
  node, only the Package and the Function node, where \<open>TestParseSimpleStruct\<close> expects
  a StructContainer \<open>Person\<close> holding the Field node \<open>Name\<close>.
\<close>

theorem Walk_File_simple_struct:
  "map_sum id fileVisitor.File
     (Walk_File \<lparr> FileSet = PositionIn simple_struct_src, File = None, Blocks = [] \<rparr>
        simple_struct_ast) =
   Inr (Some
     \<lparr> File.LocationSpan =
         \<lparr> LocationSpan.Start = \<lparr> Location.Line = 1, Location.Column = 1 \<rparr>,
           LocationSpan.End = \<lparr> Location.Line = 6, Location.Column = 2 \<rparr> \<rparr>,
       File.FooterSpan = \<lparr> RuneSpan.Start = 0, RuneSpan.End = - 1 \<rparr>,
       File.Containers = [],
       File.Nodes =
         [ \<lparr> Node.Type = PackageNode, Node.Name = ''simplestruct'',
             Node.LocationSpan =
               \<lparr> LocationSpan.Start = \<lparr> Location.Line = 1, Location.Column = 1 \<rparr>,
                 LocationSpan.End = \<lparr> Location.Line = 1, Location.Column = 21 \<rparr> \<rparr>,
             Node.Span = \<lparr> RuneSpan.Start = 0, RuneSpan.End = 20 \<rparr> \<rparr>,
           \<lparr> Node.Type = FunctionNode, Node.Name = ''SayHi'',
             Node.LocationSpan =
               \<lparr> LocationSpan.Start = \<lparr> Location.Line = 5, Location.Column = 1 \<rparr>,
                 LocationSpan.End = \<lparr> Location.Line = 6, Location.Column = 2 \<rparr> \<rparr>,
             Node.Span = \<lparr> RuneSpan.Start = 57, RuneSpan.End = 73 \<rparr> \<rparr> ],
       File.ParsingErrors = [] \<rparr>)"
  by (simp add: Walk_File_eq)
     (simp add: simple_struct_ast_def createFile_def createFunc_def File_Pos_def File_End_def
        Ident_Pos_def Ident_End_def FuncDecl_Pos_def FuncDecl_End_def BlockStmt_End_def
        Position_def PositionIn_simple_struct)

end
